theory Spec2Isabelle
  imports Complex_Main
begin

section \<open>Radiant-floor cross-section solver: parameters and presets\<close>

text \<open>
  The solver is the body of the \<^verbatim>\<open>results\<close> closure of the simulator component.
  A JavaScript number is modelled as a real: \<^verbatim>\<open>Math.max\<close>, \<^verbatim>\<open>Math.min\<close>,
  \<^verbatim>\<open>Math.exp\<close>, \<^verbatim>\<open>Math.log\<close>, \<^verbatim>\<open>Math.pow\<close>, \<^verbatim>\<open>Math.hypot\<close> and
  \<^verbatim>\<open>Math.round\<close> are \<open>max\<close>, \<open>min\<close>, \<open>exp\<close>, \<open>ln\<close>, \<open>powr\<close>, the root of the sum of
  squares and \<open>round\<close> (both round a half upwards). The rounding error of IEEE doubles and
  the values \<^verbatim>\<open>NaN\<close> and \<^verbatim>\<open>Infinity\<close> are outside the model. A typed array is a list,
  an integer index or count a \<open>nat\<close>, an optional object field an \<open>option\<close>.
\<close>

record screed_preset =
  screed_id :: string
  screed_k :: real

record cover_preset =
  cover_id :: string
  cover_t :: real
  cover_k :: real

record insul_preset =
  insul_id :: string
  insul_t :: real
  insul_k :: real

text \<open>An underlay preset carries \<^verbatim>\<open>t\<close>, \<^verbatim>\<open>eps\<close> and \<^verbatim>\<open>phi\<close> only for some types.\<close>

record under_preset =
  under_id :: string
  under_type :: string
  under_t :: "real option"
  under_eps :: "real option"
  under_phi :: "real option"

record params =
  Tair :: real
  Ts :: real
  Tr :: real
  spacing :: real
  pipeOD :: real
  screedThk :: real
  hTop :: real
  belowT :: real
  airVel :: real
  screed :: screed_preset
  cover :: cover_preset
  under :: under_preset
  insul :: insul_preset
  nPipes :: nat
  layout :: string
  loopLength :: real
  loopPosFrac :: real
  useFixedArea :: bool
  areaM2 :: real

definition PRESETS_SCREED :: "screed_preset list" where
  "PRESETS_SCREED =
    [\<lparr>screed_id = ''wet'', screed_k = 0.80\<rparr>,
     \<lparr>screed_id = ''semi'', screed_k = 0.46\<rparr>,
     \<lparr>screed_id = ''anhydrite'', screed_k = 1.60\<rparr>,
     \<lparr>screed_id = ''high'', screed_k = 1.50\<rparr>]"

definition PRESETS_COVER :: "cover_preset list" where
  "PRESETS_COVER =
    [\<lparr>cover_id = ''tile'', cover_t = 0.014, cover_k = 1.10\<rparr>,
     \<lparr>cover_id = ''laminate8'', cover_t = 0.010, cover_k = 0.11\<rparr>,
     \<lparr>cover_id = ''wood20'', cover_t = 0.020, cover_k = 0.15\<rparr>,
     \<lparr>cover_id = ''vinyl5'', cover_t = 0.005, cover_k = 0.25\<rparr>,
     \<lparr>cover_id = ''none'', cover_t = 0.0, cover_k = 99.0\<rparr>]"

definition PRESETS_INSULATION :: "insul_preset list" where
  "PRESETS_INSULATION =
    [\<lparr>insul_id = ''eps30'', insul_t = 0.03, insul_k = 0.035\<rparr>,
     \<lparr>insul_id = ''eps50'', insul_t = 0.05, insul_k = 0.035\<rparr>,
     \<lparr>insul_id = ''eps100'', insul_t = 0.10, insul_k = 0.035\<rparr>,
     \<lparr>insul_id = ''xps50'', insul_t = 0.05, insul_k = 0.030\<rparr>,
     \<lparr>insul_id = ''none'', insul_t = 0.0, insul_k = 1.0\<rparr>]"

definition PRESETS_UNDERLAY :: "under_preset list" where
  "PRESETS_UNDERLAY =
    [\<lparr>under_id = ''none'', under_type = ''none'', under_t = Some 0,
      under_eps = None, under_phi = None\<rparr>,
     \<lparr>under_id = ''foil'', under_type = ''foil'', under_t = Some 0,
      under_eps = None, under_phi = None\<rparr>,
     \<lparr>under_id = ''bubble5'', under_type = ''bubble'', under_t = Some 0.005,
      under_eps = Some 0.05, under_phi = None\<rparr>,
     \<lparr>under_id = ''mat50'', under_type = ''mat'', under_t = None,
      under_eps = None, under_phi = Some 0.50\<rparr>,
     \<lparr>under_id = ''mat33'', under_type = ''mat'', under_t = None,
      under_eps = None, under_phi = Some 0.33\<rparr>]"

text \<open>The parameter set the component starts with (the \<^verbatim>\<open>useState\<close> defaults).\<close>

definition defaults :: params where
  "defaults =
    \<lparr>Tair = 22, Ts = 45, Tr = 40, spacing = 0.15, pipeOD = 0.016, screedThk = 0.050,
     hTop = 10, belowT = 18, airVel = 0,
     screed = PRESETS_SCREED ! 1, cover = PRESETS_COVER ! 0,
     under = PRESETS_UNDERLAY ! 0, insul = PRESETS_INSULATION ! 2,
     nPipes = 3, layout = ''spiral'', loopLength = 80, loopPosFrac = 0.5,
     useFixedArea = True, areaM2 = 9\<rparr>"

section \<open>Layer stack\<close>

definition val_S :: "params \<Rightarrow> real" where
  "val_S p = max 0.08 (min 0.40 (spacing p))"

definition val_D :: "params \<Rightarrow> real" where
  "val_D p = max 0.012 (min 0.020 (pipeOD p))"

definition twm :: "params \<Rightarrow> real" where
  "twm p = 0.5 * (Ts p + Tr p)"

definition tCover :: "params \<Rightarrow> real" where
  "tCover p = cover_t (cover p)"

definition tScreed :: "params \<Rightarrow> real" where
  "tScreed p = max (screedThk p) 0.02"

text \<open>\<^verbatim>\<open>under.type === 'bubble' && under.t > 0\<close>: a missing \<^verbatim>\<open>t\<close> compares false.\<close>

definition isBubble :: "under_preset \<Rightarrow> bool" where
  "isBubble u \<longleftrightarrow>
     under_type u = ''bubble'' \<and> (case under_t u of None \<Rightarrow> False | Some v \<Rightarrow> v > 0)"

text \<open>\<^verbatim>\<open>under.t || 0\<close>: a missing \<^verbatim>\<open>t\<close> and the value 0 both give 0.\<close>

definition under_t_or0 :: "under_preset \<Rightarrow> real" where
  "under_t_or0 u = (case under_t u of None \<Rightarrow> 0 | Some v \<Rightarrow> v)"

definition tUnder :: "params \<Rightarrow> real" where
  "tUnder p = (if isBubble (under p) then under_t_or0 (under p) else 0)"

definition Rair_base :: "real \<Rightarrow> real" where
  "Rair_base tGap = 0.11 * (tGap / 0.01)"

definition rad_factor :: real where
  "rad_factor = 1.6"

definition Rgap :: "real \<Rightarrow> real" where
  "Rgap tGap = Rair_base tGap * rad_factor"

definition kUnder :: "params \<Rightarrow> real" where
  "kUnder p =
     (if isBubble (under p)
      then (let tGap = under_t_or0 (under p) in max 0.002 (tGap / Rgap tGap))
      else if under_type (under p) = ''foil'' then 1
      else 1)"

definition tIns :: "params \<Rightarrow> real" where
  "tIns p = insul_t (insul p)"

definition totalH :: "params \<Rightarrow> real" where
  "totalH p = tCover p + tScreed p + tUnder p + tIns p"

section \<open>Automatic pipe placement\<close>

definition yUnderTop :: "params \<Rightarrow> real" where
  "yUnderTop p = tCover p + tScreed p"

definition yInsulTop :: "params \<Rightarrow> real" where
  "yInsulTop p = tCover p + tScreed p + tUnder p"

definition minCover :: real where
  "minCover = 0.02"

definition limitByScreed :: "params \<Rightarrow> real" where
  "limitByScreed p = max 0 (tScreed p - val_D p)"

definition limitByCover :: "params \<Rightarrow> real" where
  "limitByCover p = max 0 (yInsulTop p - minCover - val_D p)"

definition maxDBot :: "params \<Rightarrow> real" where
  "maxDBot p = max 0 (min (limitByScreed p) (limitByCover p))"

definition dBotUser :: real where
  "dBotUser = 0"

definition dBotRaw :: "params \<Rightarrow> real" where
  "dBotRaw p =
     max dBotUser (if under_type (under p) \<noteq> ''none'' then under_t_or0 (under p) else 0)"

definition dBot :: "params \<Rightarrow> real" where
  "dBot p = min (dBotRaw p) (maxDBot p)"

definition pipeBottomY :: "params \<Rightarrow> real" where
  "pipeBottomY p = yInsulTop p - dBot p"

definition pipeCenterY :: "params \<Rightarrow> real" where
  "pipeCenterY p = pipeBottomY p - 0.5 * val_D p"


definition val_W :: "params \<Rightarrow> real" where
  "val_W p = real (max 1 (nPipes p)) * val_S p"

text \<open>Pipe centres as pairs \<open>(x, y)\<close>, one per pipe index \<open>k\<close>.\<close>

definition pipeCenters :: "params \<Rightarrow> (real \<times> real) list" where
  "pipeCenters p =
     map (\<lambda>k. ((real k + 0.5) * val_S p, pipeCenterY p)) [0..<max 1 (nPipes p)]"

section \<open>Adaptive grid\<close>

definition NX :: nat where
  "NX = 144"

definition baseNY :: real where
  "baseNY = 80"

definition dyBase :: "params \<Rightarrow> real" where
  "dyBase p = totalH p / max 2 (baseNY - 1)"

definition dyLimits :: "params \<Rightarrow> real list" where
  "dyLimits p =
     [dyBase p]
     @ (if tCover p > 0 then [tCover p / 6] else [])
     @ [tScreed p / 30]
     @ (if tUnder p > 0 then [tUnder p / 4] else [])
     @ (if tIns p > 0 then [tIns p / 10] else [])"

text \<open>\<^verbatim>\<open>Math.min(...xs)\<close> on a list that is never empty here.\<close>

definition Math_min :: "real list \<Rightarrow> real" where
  "Math_min xs = fold min (tl xs) (hd xs)"

definition dyTarget :: "params \<Rightarrow> real" where
  "dyTarget p = max (1 / 10 ^ 5) (Math_min (dyLimits p))"

text \<open>
  The quotient below is the exact one. Where it is a rounding tie (an integer and a half)
  the quotient formed in doubles can fall just under it, and \<^verbatim>\<open>Math.round\<close> then gives
  one node fewer than \<open>round\<close> does here.
\<close>

definition NY :: "params \<Rightarrow> nat" where
  "NY p = nat (max 3 (min 300 (round (totalH p / dyTarget p) + 1)))"

definition dx :: "params \<Rightarrow> real" where
  "dx p = val_W p / (real NX - 1)"

definition dy :: "params \<Rightarrow> real" where
  "dy p = totalH p / (real (NY p) - 1)"

section \<open>Conductivity per row\<close>

text \<open>The layer test of the \<^verbatim>\<open>kRow\<close> loop, as a function of the depth \<open>y\<close>.\<close>

definition kAtDepth :: "params \<Rightarrow> real \<Rightarrow> real" where
  "kAtDepth p y =
     (if y \<le> tCover p then (if cover_t (cover p) = 0 then screed_k (screed p) else cover_k (cover p))
      else if y \<le> tCover p + tScreed p then screed_k (screed p)
      else if y \<le> tCover p + tScreed p + tUnder p then kUnder p
      else (if insul_t (insul p) > 0 then insul_k (insul p) else screed_k (screed p)))"

text \<open>
  The depth of row \<open>j\<close> below is the exact product. A row whose exact depth is a layer
  interface can fall on either side of it in doubles, so the layer of such a row is not
  fixed by this definition.
\<close>

definition kRow :: "params \<Rightarrow> real list" where
  "kRow p = map (\<lambda>j. kAtDepth p (real j * dy p)) [0..<NY p]"

section \<open>Initial field and pipe mask\<close>

definition idx :: "nat \<Rightarrow> nat \<Rightarrow> nat" where
  "idx i j = j * NX + i"

text \<open>\<^verbatim>\<open>T.fill(v, a, b)\<close> writes \<open>v\<close> at the indices from \<open>a\<close> up to \<open>b - 1\<close>.\<close>

definition fill :: "'a \<Rightarrow> nat \<Rightarrow> nat \<Rightarrow> 'a list \<Rightarrow> 'a list" where
  "fill v a b xs = fold (\<lambda>i ys. ys[i := v]) [a..<b] xs"

definition initRow :: "params \<Rightarrow> nat \<Rightarrow> real list \<Rightarrow> real list" where
  "initRow p j T =
     (let frac = 1 - real j / (real (NY p) - 1);
          Tv = belowT p * (1 - frac) + Tair p * frac
      in fill Tv (j * NX) ((j + 1) * NX) T)"

definition initT :: "params \<Rightarrow> real list" where
  "initT p = fold (initRow p) [0..<NY p] (replicate (NX * NY p) 0)"

definition hypot :: "real \<Rightarrow> real \<Rightarrow> real" where
  "hypot a b = sqrt (a\<^sup>2 + b\<^sup>2)"

text \<open>The loop over the pipe centres, left at the first centre within the radius.\<close>

fun firstPipe :: "(real \<times> real) list \<Rightarrow> nat \<Rightarrow> real \<Rightarrow> real \<Rightarrow> real \<Rightarrow> nat option" where
  "firstPipe [] k x y r = None"
| "firstPipe (pc # pcs) k x y r =
     (if hypot (x - fst pc) (y - snd pc) \<le> r then Some k
      else firstPipe pcs (Suc k) x y r)"

text \<open>A store into an \<^verbatim>\<open>Int8Array\<close> wraps to the range from -128 to 127.\<close>

definition int8 :: "int \<Rightarrow> int" where
  "int8 v = (v + 128) mod 256 - 128"

text \<open>
  The state of the mask loops is the pair of \<^verbatim>\<open>pipeMask\<close> (a \<^verbatim>\<open>Uint8Array\<close>, all 0
  when created) and \<^verbatim>\<open>pipeLabel\<close> (an \<^verbatim>\<open>Int8Array\<close>, filled with -1).
\<close>

definition maskCell :: "params \<Rightarrow> nat \<Rightarrow> nat \<Rightarrow> nat list \<times> int list \<Rightarrow> nat list \<times> int list" where
  "maskCell p j i st =
     (let y = real j * dy p; x = real i * dx p; r = 0.5 * val_D p
      in case firstPipe (pipeCenters p) 0 x y r of
           None \<Rightarrow> st
         | Some k \<Rightarrow> ((fst st)[idx i j := 1], (snd st)[idx i j := int8 (int k)]))"

definition maskRow :: "params \<Rightarrow> nat \<Rightarrow> nat list \<times> int list \<Rightarrow> nat list \<times> int list" where
  "maskRow p j st = fold (maskCell p j) [1..<NX - 1] st"

definition maskLoops :: "params \<Rightarrow> nat list \<times> int list" where
  "maskLoops p =
     fold (maskRow p) [1..<NY p - 1]
       (replicate (NX * NY p) 0, fill (- 1) 0 (NX * NY p) (replicate (NX * NY p) 0))"

definition pipeMask :: "params \<Rightarrow> nat list" where
  "pipeMask p = fst (maskLoops p)"

definition pipeLabel :: "params \<Rightarrow> int list" where
  "pipeLabel p = snd (maskLoops p)"

section \<open>Loop thermal model\<close>

definition iters :: nat where
  "iters = 1200"

definition omega :: real where
  "omega = 1.85"

definition hEff :: "params \<Rightarrow> real" where
  "hEff p = hTop p + 6.0 * (max 0 (airVel p)) powr 0.6"

definition computePipeTemperatures ::
  "nat \<Rightarrow> real \<Rightarrow> real \<Rightarrow> string \<Rightarrow> real \<Rightarrow> real \<Rightarrow> real \<Rightarrow> real \<Rightarrow> real list" where
  "computePipeTemperatures n ts tr lay tair L x s =
     (if n \<le> 1 then [0.5 * (ts + tr)]
      else
        let num = max (1 / 10 ^ 6) (ts - tair);
            den = max (1 / 10 ^ 6) (tr - tair);
            alpha = max (1 / 10 ^ 6) (ln (num / den) / max (1 / 10 ^ 6) L);
            deltaAdj = (if lay = ''spiral'' then 2.0 else 3.0)
        in if lay = ''meander''
           then
             (let clamp = (\<lambda>v. max 0 (min L v));
                  Ts_at = (\<lambda>s. tair + (ts - tair) * exp (- alpha * clamp s));
                  left = Ts_at (x - deltaAdj);
                  mid = Ts_at x;
                  right = Ts_at (x + deltaAdj)
              in take n [left, mid, right])
           else
             (let clamp = (\<lambda>v. max 0 (min L v));
                  Ts_at = (\<lambda>s. tair + (ts - tair) * exp (- alpha * clamp s));
                  Tr_at = (\<lambda>s. tair + (ts - tair) * exp (- alpha * clamp (L - s)));
                  left = Ts_at (x - deltaAdj);
                  mid = Tr_at x;
                  right = Ts_at (x + deltaAdj)
              in take n [left, mid, right]))"

definition L_eff :: "params \<Rightarrow> real" where
  "L_eff p =
     max 5 (if useFixedArea p then max (1 / 10 ^ 3) (areaM2 p) / max 0.02 (val_S p)
            else loopLength p)"

definition xPos :: "params \<Rightarrow> real" where
  "xPos p = max 0 (min 0.5 (loopPosFrac p)) * max (1 / 10 ^ 6) (L_eff p)"

definition TpipeArr :: "params \<Rightarrow> real list" where
  "TpipeArr p =
     computePipeTemperatures (length (pipeCenters p)) (Ts p) (Tr p) (layout p) (Tair p)
       (L_eff p) (xPos p) (val_S p)"

definition alphaDbg :: "params \<Rightarrow> real" where
  "alphaDbg p =
     max (1 / 10 ^ 6)
       (ln (max (1 / 10 ^ 6) (Ts p - Tair p) / max (1 / 10 ^ 6) (Tr p - Tair p))
        / max (1 / 10 ^ 6) (L_eff p))"

section \<open>Relaxation solver\<close>

text \<open>
  The field \<^verbatim>\<open>T\<close> is a list of \<open>NX * NY\<close> reals, updated in place by the source and
  passed from step to step here. The value written at a pipe cell is the same code in
  the top row and in the interior rows.
\<close>

definition pipeCellValue :: "params \<Rightarrow> real list \<Rightarrow> nat \<Rightarrow> nat \<Rightarrow> real" where
  "pipeCellValue p T i j =
     (let label = pipeLabel p ! idx i j;
          Tpipe = (if label \<ge> 0
                   then TpipeArr p ! nat (max 0 (min (int (length (TpipeArr p)) - 1) label))
                   else twm p)
      in if under_type (under p) = ''mat''
         then
           (let phi = (case under_phi (under p) of None \<Rightarrow> 0.5 | Some v \<Rightarrow> v);
                kGap = 0.026; tGap = 0.001;
                hGap = kGap / tGap;
                w = max 0 (min 1 phi);
                T1 = T ! idx i (j + 1); k = kRow p ! j;
                Trob = ((k / dy p) * T1 + hGap * Tair p) / ((k / dy p) + hGap)
            in w * Tpipe + (1 - w) * Trob)
         else Tpipe)"

definition topCell :: "params \<Rightarrow> nat \<Rightarrow> real list \<Rightarrow> real list" where
  "topCell p i T =
     (if pipeMask p ! idx i 0 \<noteq> 0 then T[idx i 0 := pipeCellValue p T i 0]
      else
        let k = kRow p ! 0;
            T1 = T ! idx i (0 + 1);
            T0 = ((k / dy p) * T1 + hEff p * Tair p) / ((k / dy p) + hEff p)
        in T[idx i 0 := T0])"

definition topRow :: "params \<Rightarrow> real list \<Rightarrow> real list" where
  "topRow p T =
     (let T1 = fold (topCell p) [0..<NX] T;
          T2 = T1[idx 0 0 := T1 ! idx 1 0]
      in T2[idx (NX - 1) 0 := T2 ! idx (NX - 2) 0])"

definition bottomCell :: "params \<Rightarrow> nat \<Rightarrow> real list \<Rightarrow> real list" where
  "bottomCell p i T =
     (let j = NY p - 1
      in if pipeMask p ! idx i j \<noteq> 0 then T[idx i j := twm p]
         else T[idx i j := belowT p])"

definition bottomRow :: "params \<Rightarrow> real list \<Rightarrow> real list" where
  "bottomRow p T = fold (bottomCell p) [0..<NX] T"

definition interiorCell :: "params \<Rightarrow> nat \<Rightarrow> nat \<Rightarrow> real list \<Rightarrow> real list" where
  "interiorCell p j i T =
     (if i = 0 then T[idx 0 j := T ! idx 1 j]
      else if i = NX - 1 then T[idx (NX - 1) j := T ! idx (NX - 2) j]
      else if pipeMask p ! idx i j \<noteq> 0 then T[idx i j := pipeCellValue p T i j]
      else
        let k = kRow p ! j; kU = kRow p ! (j - 1); kD = kRow p ! (j + 1);
            kxL = k; kxR = k;
            kyU = 2 * k * kU / (k + kU); kyD = 2 * k * kD / (k + kD);
            tL = T ! idx (i - 1) j; tR = T ! idx (i + 1) j;
            tU = T ! idx i (j - 1); tD = T ! idx i (j + 1);
            Ax = kxL / (dx p * dx p) + kxR / (dx p * dx p);
            Ay = kyU / (dy p * dy p) + kyD / (dy p * dy p);
            b = (kxL * tL + kxR * tR) / (dx p * dx p) + (kyU * tU + kyD * tD) / (dy p * dy p);
            Tnew = b / (Ax + Ay);
            old = T ! idx i j
        in T[idx i j := old + omega * (Tnew - old)])"

definition rowSweep :: "params \<Rightarrow> nat \<Rightarrow> real list \<Rightarrow> real list" where
  "rowSweep p j T =
     (if j = 0 then topRow p T
      else if j = NY p - 1 then bottomRow p T
      else fold (interiorCell p j) [0..<NX] T)"

definition sweep :: "params \<Rightarrow> real list \<Rightarrow> real list" where
  "sweep p T = fold (rowSweep p) [0..<NY p] T"

definition solveField :: "params \<Rightarrow> real list" where
  "solveField p = (sweep p ^^ iters) (initT p)"

section \<open>Flux extraction\<close>

definition surfaceT :: "real list \<Rightarrow> real list" where
  "surfaceT T = map (\<lambda>i. T ! idx i 0) [0..<NX]"

definition qUpSum :: "params \<Rightarrow> real list \<Rightarrow> real" where
  "qUpSum p T = fold (\<lambda>i s. s + hEff p * (surfaceT T ! i - Tair p)) [0..<NX] 0"

definition qUpMean :: "params \<Rightarrow> real list \<Rightarrow> real" where
  "qUpMean p T = qUpSum p T / real NX"

definition qDownSum :: "params \<Rightarrow> real list \<Rightarrow> real" where
  "qDownSum p T =
     fold (\<lambda>i s.
            let kB = kRow p ! (NY p - 1);
                Tb = T ! idx i (NY p - 1);
                Tprev = T ! idx i (NY p - 2);
                q = - kB * (Tb - Tprev) / dy p
            in s + q) [0..<NX] 0"

definition qDownMean :: "params \<Rightarrow> real list \<Rightarrow> real" where
  "qDownMean p T = qDownSum p T / real NX"

definition qDownAbs :: "params \<Rightarrow> real list \<Rightarrow> real" where
  "qDownAbs p T = max 0 (qDownMean p T)"

definition qTotalPerArea :: "params \<Rightarrow> real list \<Rightarrow> real" where
  "qTotalPerArea p T = qUpMean p T + qDownAbs p T"

definition upShare :: "params \<Rightarrow> real list \<Rightarrow> real" where
  "upShare p T = qUpMean p T / (qTotalPerArea p T + 1 / 10 ^ 9)"

text \<open>
  \<^verbatim>\<open>+v.toFixed(d)\<close>: the nearest multiple of \<open>10\<^sup>-\<^sup>d\<close>, the larger one of two equally
  near, taken on the absolute value.
\<close>

definition toFixed :: "nat \<Rightarrow> real \<Rightarrow> real" where
  "toFixed d v =
     (if v < 0 then - (of_int \<lfloor>(- v) * 10 ^ d + 1 / 2\<rfloor> / 10 ^ d)
      else of_int \<lfloor>v * 10 ^ d + 1 / 2\<rfloor> / 10 ^ d)"

text \<open>The flux entries of the \<^verbatim>\<open>metrics\<close> object that the solve returns.\<close>

record flux_metrics =
  m_qUpMean :: real
  m_qDownMean :: real
  m_upShare :: real
  m_qTotal :: real

definition metrics :: "params \<Rightarrow> flux_metrics" where
  "metrics p =
     (let T = solveField p
      in \<lparr>m_qUpMean = toFixed 1 (qUpMean p T),
          m_qDownMean = toFixed 1 (qDownAbs p T),
          m_upShare = toFixed 1 (upShare p T * 100),
          m_qTotal = toFixed 1 (qTotalPerArea p T)\<rparr>)"

section \<open>The grid rule in the words of the specification\<close>

text \<open>
  The candidate cell sizes as the specification lists them: the baseline resolution of 80
  rows over the whole height, and one candidate for each layer of positive thickness.
\<close>

definition spec_cellCandidates :: "params \<Rightarrow> real set" where
  "spec_cellCandidates p =
     {totalH p / 79}
     \<union> (if tCover p > 0 then {tCover p / 6} else {})
     \<union> (if tScreed p > 0 then {tScreed p / 30} else {})
     \<union> (if tUnder p > 0 then {tUnder p / 4} else {})
     \<union> (if tIns p > 0 then {tIns p / 10} else {})"

definition spec_targetCellSize :: "params \<Rightarrow> real" where
  "spec_targetCellSize p = Min (spec_cellCandidates p)"


section \<open>The loop model in the words of the specification\<close>

text \<open>
  The decay coefficient and the supply and return curves as the specification writes
  them; the curves take the coefficient as an argument.
\<close>

definition spec_clamp :: "real \<Rightarrow> real \<Rightarrow> real \<Rightarrow> real" where
  "spec_clamp s lo hi = max lo (min hi s)"

definition spec_alpha :: "params \<Rightarrow> real" where
  "spec_alpha p =
     ln (max (Ts p - Tair p) (1 / 10 ^ 6) / max (Tr p - Tair p) (1 / 10 ^ 6)) / L_eff p"

definition spec_T_supply :: "params \<Rightarrow> real \<Rightarrow> real \<Rightarrow> real" where
  "spec_T_supply p a s =
     Tair p + (Ts p - Tair p) * exp (- a * spec_clamp s 0 (L_eff p))"

definition spec_T_return :: "params \<Rightarrow> real \<Rightarrow> real \<Rightarrow> real" where
  "spec_T_return p a s =
     Tair p + (Ts p - Tair p) * exp (- a * spec_clamp (L_eff p - s) 0 (L_eff p))"

section \<open>Parameter sets used as examples\<close>



text \<open>The defaults with the bubble-foil underlay.\<close>

definition bubble_params :: params where
  "bubble_params = defaults\<lparr>under := PRESETS_UNDERLAY ! 2\<rparr>"

text \<open>The defaults with the supply lowered to the return temperature.\<close>

definition equal_temps_params :: params where
  "equal_temps_params = defaults\<lparr>Ts := 40\<rparr>"

text \<open>
  The defaults with the supply a millionth of a degree above the return, cut at the start
  of the loop.
\<close>

definition near_equal_params :: params where
  "near_equal_params = defaults\<lparr>Ts := 40.000001, loopPosFrac := 0\<rparr>"

text \<open>
  A loop at the floor of 5 m (half a square metre of floor) with the supply far above the
  return.
\<close>

definition short_loop_params :: params where
  "short_loop_params = defaults\<lparr>Ts := 55, Tr := 25, areaM2 := 0.5\<rparr>"

text \<open>The defaults with the meander layout.\<close>

definition meander_params :: params where
  "meander_params = defaults\<lparr>layout := ''meander''\<rparr>"

text \<open>
  A stack whose exact quotient of height and target cell size is a tie: laminate covering,
  20 mm screed, bubble-foil underlay and 50 mm insulation.
\<close>

definition tie_params :: params where
  "tie_params =
     defaults\<lparr>screedThk := 0.02, cover := PRESETS_COVER ! 1, insul := PRESETS_INSULATION ! 1,
       under := PRESETS_UNDERLAY ! 2\<rparr>"

section \<open>Facts about the layer stack\<close>

lemmas presets_defs = PRESETS_SCREED_def PRESETS_COVER_def PRESETS_INSULATION_def
  PRESETS_UNDERLAY_def

lemmas params_defs = defaults_def PRESETS_SCREED_def PRESETS_COVER_def PRESETS_INSULATION_def
  PRESETS_UNDERLAY_def

lemmas stack_defs = tCover_def tScreed_def tUnder_def tIns_def totalH_def isBubble_def
  under_t_or0_def yUnderTop_def yInsulTop_def val_D_def val_S_def


lemma tScreed_ge: "0.02 \<le> tScreed p"
  by (simp add: tScreed_def)



lemma bubble_ratio: "g > 0 \<Longrightarrow> g / Rgap g = 0.01 / 0.176"
  by (simp add: Rgap_def Rair_base_def rad_factor_def field_simps)

text \<open>
  C10: for a bubble-foil underlay the gap thickness cancels in the equivalent conductivity:
  for every gap thickness above 0 it is the constant 0.01 / 0.176 (about 0.0568), which is
  above the floor of 0.002, so the floor never binds.
\<close>

theorem bubble_kUnder_constant:
  assumes "under_type (under p) = ''bubble''" and "under_t (under p) = Some g" and "g > 0"
  shows "kUnder p = 0.01 / 0.176 \<and> g / Rgap g = 0.01 / 0.176 \<and> 0.002 < g / Rgap g"
proof -
  have b: "isBubble (under p)" using assms by (simp add: isBubble_def)
  have t: "under_t_or0 (under p) = g" using assms by (simp add: under_t_or0_def)
  have r: "g / Rgap g = 0.01 / 0.176" using assms(3) by (rule bubble_ratio)
  have "kUnder p = max 0.002 (g / Rgap g)" using b t by (simp add: kUnder_def)
  with r show ?thesis by simp
qed

text \<open>The 5 mm bubble-foil preset of the underlay list.\<close>

theorem bubble_kUnder_constant_witness:
  "kUnder bubble_params = 0.01 / 0.176 \<and> (0.002::real) < 0.005 / Rgap 0.005"
proof -
  have a: "under_type (under bubble_params) = ''bubble''"
    by (simp add: bubble_params_def defaults_def presets_defs)
  have b: "under_t (under bubble_params) = Some 0.005"
    by (simp add: bubble_params_def defaults_def presets_defs)
  have c: "(0.005::real) > 0" by simp
  show ?thesis using bubble_kUnder_constant[OF a b c] by simp
qed

section \<open>The adaptive vertical resolution\<close>

lemma Math_min_Min: "xs \<noteq> [] \<Longrightarrow> Math_min xs = Min (set xs)"
proof -
  assume "xs \<noteq> []"
  then obtain a ys where xs: "xs = a # ys" by (cases xs) auto
  have "fold min ys a = Min (set (a # ys))"
    using Min.set_eq_fold[of a ys] by simp
  then show ?thesis by (simp add: Math_min_def xs)
qed

lemma dyLimits_set: "set (dyLimits p) = spec_cellCandidates p"
  using tScreed_ge[of p] by (auto simp: dyLimits_def spec_cellCandidates_def dyBase_def baseNY_def)

lemma Math_min_dyLimits: "Math_min (dyLimits p) = spec_targetCellSize p"
proof -
  have "dyLimits p \<noteq> []" by (simp add: dyLimits_def)
  then show ?thesis by (simp add: Math_min_Min dyLimits_set spec_targetCellSize_def)
qed







lemma NY_ge3: "3 \<le> NY p"
  by (simp add: NY_def)

lemma NY_le300: "NY p \<le> 300"
  by (simp add: NY_def)

lemma NY_defaults: "NY defaults = 99"
  by (simp add: NY_def dyTarget_def Math_min_def dyLimits_def dyBase_def baseNY_def
      stack_defs defaults_def presets_defs round_def)






text \<open>
  A tie that the hypothesis leaves out: the exact quotient is 127.5, and the count depends
  on the side of 127.5 on which the quotient formed in doubles falls.
\<close>

lemma tie_params_quotient:
  "0 \<le> cover_t (cover tie_params) \<and> 0 \<le> insul_t (insul tie_params)
   \<and> totalH tie_params / spec_targetCellSize tie_params = 127.5
   \<and> frac (totalH tie_params / spec_targetCellSize tie_params) = 1 / 2"
proof -
  have s: "spec_targetCellSize tie_params = 1 / 1500"
    unfolding Math_min_dyLimits[symmetric]
    by (simp add: Math_min_def dyLimits_def dyBase_def baseNY_def stack_defs tie_params_def
        params_defs)
  have h: "totalH tie_params = 0.085" by (simp add: stack_defs tie_params_def params_defs)
  have q: "totalH tie_params / spec_targetCellSize tie_params = 127.5" by (simp add: s h)
  have f: "frac (127.5::real) = 1 / 2" by (simp add: frac_def)
  have c: "0 \<le> cover_t (cover tie_params)" by (simp add: tie_params_def params_defs)
  have i: "0 \<le> insul_t (insul tie_params)" by (simp add: tie_params_def params_defs)
  show ?thesis using c i f unfolding q by simp
qed

section \<open>Pipe placement\<close>








section \<open>Conductivity per row\<close>






section \<open>Pipe boundary temperatures\<close>

lemma L_eff_ge5: "5 \<le> L_eff p"
  by (simp add: L_eff_def)

lemma alphaDbg_spec: "alphaDbg p = max (1 / 10 ^ 6) (spec_alpha p)"
proof -
  have "max (1 / 10 ^ 6) (L_eff p) = L_eff p" using L_eff_ge5[of p] by simp
  then show ?thesis by (simp add: alphaDbg_def spec_alpha_def max.commute)
qed

lemma alphaDbg_pos: "0 < alphaDbg p"
  unfolding alphaDbg_def by (rule less_max_iff_disj[THEN iffD2]) simp

lemma length_pipeCenters: "length (pipeCenters p) = max 1 (nPipes p)"
  by (simp add: pipeCenters_def)

text \<open>The profile of three pipes, with the supply and return curves written out.\<close>

lemma TpipeArr_three:
  assumes "nPipes p = 3"
  shows "TpipeArr p =
     (let a = alphaDbg p; L = L_eff p; x = xPos p;
          d = (if layout p = ''spiral'' then 2 else 3);
          f = (\<lambda>c. Tair p + (Ts p - Tair p) * exp (- a * max 0 (min L c)))
      in if layout p = ''meander'' then [f (x - d), f x, f (x + d)]
         else [f (x - d), f (L - x), f (x + d)])"
  using assms
  by (simp add: TpipeArr_def computePipeTemperatures_def length_pipeCenters alphaDbg_def Let_def)

lemma xPos_eq:
  assumes "0 \<le> loopPosFrac p" and "loopPosFrac p \<le> 0.5"
  shows "xPos p = loopPosFrac p * L_eff p"
proof -
  have "max (1 / 10 ^ 6) (L_eff p) = L_eff p" using L_eff_ge5[of p] by simp
  then show ?thesis using assms by (simp add: xPos_def)
qed

text \<open>
  C1, as the code has it: with three pipes and a cut fraction between 0 and 0.5 the
  profile is supply, supply, supply for the meander layout with the offset 3.0, and
  supply, return, supply for the spiral layout with the offset 2.0, on the curves of the
  specification. The decay coefficient is the fitted one with the floor of \<open>10\<^sup>-\<^sup>6\<close> that
  the code puts under it.
\<close>

theorem pipe_profile:
  assumes "nPipes p = 3" and "0 \<le> loopPosFrac p" and "loopPosFrac p \<le> 0.5"
    and "a = max (1 / 10 ^ 6) (spec_alpha p)" and "x = loopPosFrac p * L_eff p"
  shows "(layout p = ''meander'' \<longrightarrow>
            TpipeArr p = [spec_T_supply p a (x - 3.0), spec_T_supply p a x,
                          spec_T_supply p a (x + 3.0)])
         \<and> (layout p = ''spiral'' \<longrightarrow>
            TpipeArr p = [spec_T_supply p a (x - 2.0), spec_T_return p a x,
                          spec_T_supply p a (x + 2.0)])"
proof -
  have xp: "xPos p = x" using assms(2,3,5) by (simp add: xPos_eq)
  have al: "alphaDbg p = a" using assms(4) by (simp add: alphaDbg_spec)
  show ?thesis
    by (simp add: TpipeArr_three[OF assms(1)] Let_def xp al spec_T_supply_def
        spec_T_return_def spec_clamp_def)
qed

lemma L_eff_defaults: "L_eff defaults = 60"
  by (simp add: L_eff_def val_S_def params_defs)

lemma L_eff_meander: "L_eff meander_params = 60"
  by (simp add: L_eff_def val_S_def meander_params_def params_defs)

lemma L_eff_equal_temps: "L_eff equal_temps_params = 60"
  by (simp add: L_eff_def val_S_def equal_temps_params_def params_defs)

lemma spec_alpha_equal_temps: "spec_alpha equal_temps_params = 0"
  by (simp add: spec_alpha_def equal_temps_params_def params_defs)

text \<open>
  The default parameter set (spiral) and its meander variant, cut at 30 m of a 60 m loop.
\<close>

theorem pipe_profile_witness:
  "TpipeArr defaults =
     [spec_T_supply defaults (max (1 / 10 ^ 6) (spec_alpha defaults)) 28,
      spec_T_return defaults (max (1 / 10 ^ 6) (spec_alpha defaults)) 30,
      spec_T_supply defaults (max (1 / 10 ^ 6) (spec_alpha defaults)) 32]
   \<and> TpipeArr meander_params =
     [spec_T_supply meander_params (max (1 / 10 ^ 6) (spec_alpha meander_params)) 27,
      spec_T_supply meander_params (max (1 / 10 ^ 6) (spec_alpha meander_params)) 30,
      spec_T_supply meander_params (max (1 / 10 ^ 6) (spec_alpha meander_params)) 33]"
proof -
  have n: "nPipes defaults = 3" by (simp add: params_defs)
  have f: "0 \<le> loopPosFrac defaults" "loopPosFrac defaults \<le> 0.5" by (simp_all add: params_defs)
  have x: "(30::real) = loopPosFrac defaults * L_eff defaults"
    by (simp add: L_eff_defaults) (simp add: params_defs)
  have l: "layout defaults = ''spiral''" by (simp add: params_defs)
  have n': "nPipes meander_params = 3" by (simp add: meander_params_def params_defs)
  have f': "0 \<le> loopPosFrac meander_params" "loopPosFrac meander_params \<le> 0.5"
    by (simp_all add: meander_params_def params_defs)
  have x': "(30::real) = loopPosFrac meander_params * L_eff meander_params"
    by (simp add: L_eff_meander) (simp add: meander_params_def params_defs)
  have l': "layout meander_params = ''meander''" by (simp add: meander_params_def params_defs)
  show ?thesis using pipe_profile[OF n f refl x] l pipe_profile[OF n' f' refl x'] l' by simp
qed

text \<open>
  C1 as stated, with the coefficient not floored, fails when supply and return are equal:
  the fitted coefficient is 0 and the stated centre temperature is 40, while the code
  decays with the coefficient \<open>10\<^sup>-\<^sup>6\<close>.
\<close>

theorem pipe_profile_counterexample:
  "nPipes equal_temps_params = 3 \<and> layout equal_temps_params = ''spiral''
   \<and> TpipeArr equal_temps_params \<noteq>
       [spec_T_supply equal_temps_params (spec_alpha equal_temps_params)
          (loopPosFrac equal_temps_params * L_eff equal_temps_params - 2.0),
        spec_T_return equal_temps_params (spec_alpha equal_temps_params)
          (loopPosFrac equal_temps_params * L_eff equal_temps_params),
        spec_T_supply equal_temps_params (spec_alpha equal_temps_params)
          (loopPosFrac equal_temps_params * L_eff equal_temps_params + 2.0)]"
proof -
  have n: "nPipes equal_temps_params = 3" by (simp add: equal_temps_params_def params_defs)
  have l: "layout equal_temps_params = ''spiral''"
    by (simp add: equal_temps_params_def params_defs)
  have a: "alphaDbg equal_temps_params = 1 / 10 ^ 6"
    by (simp add: alphaDbg_spec spec_alpha_equal_temps)
  have x: "xPos equal_temps_params = 30"
    by (simp add: xPos_def L_eff_equal_temps) (simp add: equal_temps_params_def params_defs)
  have t: "Tair equal_temps_params = 22" "Ts equal_temps_params = 40"
    by (simp_all add: equal_temps_params_def params_defs)
  have e: "exp (- (30 / 10 ^ 6)) \<noteq> (1::real)" by simp
  have m: "TpipeArr equal_temps_params ! 1 = 22 + 18 * exp (- (30 / 10 ^ 6))"
    by (simp add: TpipeArr_three[OF n] Let_def l a x t L_eff_equal_temps)
  have s: "spec_T_return equal_temps_params (spec_alpha equal_temps_params)
             (loopPosFrac equal_temps_params * L_eff equal_temps_params) = 40"
    by (simp add: spec_T_return_def spec_alpha_equal_temps t)
  have d: "TpipeArr equal_temps_params ! 1 \<noteq> 40" unfolding m using e by simp
  have "TpipeArr equal_temps_params \<noteq> [u, 40, v]" for u v
  proof
    assume "TpipeArr equal_temps_params = [u, 40, v]"
    then have "TpipeArr equal_temps_params ! 1 = [u, 40, v] ! 1" by (rule arg_cong)
    then show False using d by simp
  qed
  then show ?thesis using n l unfolding s by blast
qed

text \<open>One point of the decay curve, at a clamped distance \<open>c\<close> along the loop.\<close>

lemma decay_upper:
  fixes a c d :: real
  assumes "0 < a" and "0 \<le> c" and "0 < d"
  shows "d * exp (- a * c) \<le> d \<and> 0 < d * exp (- a * c)"
proof -
  have "0 \<le> a * c" using assms by simp
  then have "exp (- a * c) \<le> 1" by simp
  then have "d * exp (- a * c) \<le> d * 1" using assms(3) by (intro mult_left_mono) auto
  moreover have "0 < d * exp (- a * c)" using assms(3) by simp
  ultimately show ?thesis by simp
qed

lemma decay_lower:
  fixes a c d e L :: real
  assumes "0 < a" and "c \<le> L" and "0 < e" and "e \<le> d" and "a * L \<le> ln (d / e)"
  shows "e \<le> d * exp (- a * c)"
proof -
  have d: "0 < d" using assms by simp
  have "a * c \<le> a * L" using assms(1,2) by simp
  then have "a * c \<le> ln (d / e)" using assms(5) by simp
  then have "- ln (d / e) \<le> - a * c" by simp
  then have "exp (- ln (d / e)) \<le> exp (- a * c)" by simp
  moreover have "exp (- ln (d / e)) = e / d"
    using d assms(3) by (simp add: exp_minus field_simps)
  ultimately have "e / d \<le> exp (- a * c)" by simp
  then have "d * (e / d) \<le> d * exp (- a * c)" using d by (intro mult_left_mono) auto
  then show ?thesis using d by simp
qed

lemma clamp_range:
  fixes L v :: real
  assumes "0 \<le> L"
  shows "0 \<le> max 0 (min L v) \<and> max 0 (min L v) \<le> L"
  using assms by simp

lemma TpipeArr_three_set:
  assumes "nPipes p = 3" and "t \<in> set (TpipeArr p)"
  shows "\<exists>c. 0 \<le> c \<and> c \<le> L_eff p
             \<and> t = Tair p + (Ts p - Tair p) * exp (- alphaDbg p * c)"
proof -
  have L: "0 \<le> L_eff p" using L_eff_ge5[of p] by simp
  obtain v where "t = Tair p + (Ts p - Tair p) * exp (- alphaDbg p * max 0 (min (L_eff p) v))"
    using assms(2) by (auto simp: TpipeArr_three[OF assms(1)] Let_def split: if_splits)
  then show ?thesis using clamp_range[OF L, of v] by blast
qed

lemma floor_free_bound:
  assumes "Tair p < Tr p" and "1 / 10 ^ 6 \<le> spec_alpha p"
  shows "alphaDbg p * L_eff p \<le> ln ((Ts p - Tair p) / (Tr p - Tair p)) \<and> Tr p \<le> Ts p"
proof -
  define num where "num = max (Ts p - Tair p) (1 / 10 ^ 6)"
  define den where "den = max (Tr p - Tair p) (1 / 10 ^ 6)"
  have L: "0 < L_eff p" using L_eff_ge5[of p] by simp
  have sa: "spec_alpha p = ln (num / den) / L_eff p"
    by (simp add: spec_alpha_def num_def den_def)
  have denpos: "0 < den" by (simp add: den_def less_max_iff_disj)
  have numpos: "0 < num" by (simp add: num_def less_max_iff_disj)
  have "0 < spec_alpha p" using assms(2) by (simp add: less_le_trans[of 0 "1 / 10 ^ 6"])
  then have "0 < ln (num / den)" using L by (simp add: sa zero_less_divide_iff)
  then have "1 < num / den" using numpos denpos by (simp add: ln_gt_zero_iff)
  then have lt: "den < num" using denpos by (simp add: field_simps)
  have "1 / 10 ^ 6 \<le> den" by (simp add: den_def)
  then have "1 / 10 ^ 6 < num" using lt by simp
  then have numeq: "num = Ts p - Tair p" by (simp add: num_def max_def split: if_splits)
  have dge: "Tr p - Tair p \<le> den" by (simp add: den_def)
  have rpos: "0 < Tr p - Tair p" using assms(1) by simp
  have "num / den \<le> num / (Tr p - Tair p)"
    using dge rpos numpos by (intro divide_left_mono) auto
  moreover have "0 < num / den" "0 < num / (Tr p - Tair p)"
    using numpos denpos rpos by simp_all
  ultimately have "ln (num / den) \<le> ln (num / (Tr p - Tair p))"
    by (simp add: ln_le_cancel_iff)
  moreover have "alphaDbg p * L_eff p = ln (num / den)"
    using assms(2) L by (simp add: alphaDbg_spec sa max_def)
  moreover have "Tr p \<le> Ts p" using lt dge numeq by simp
  ultimately show ?thesis by (simp add: numeq)
qed

text \<open>
  C6, as the code has it: with three pipes and supply above return above air, the decay
  coefficient is positive and every temperature of the profile is at most the supply
  temperature and above the air temperature; it is at least the return temperature when
  the floor of \<open>10\<^sup>-\<^sup>6\<close> under the coefficient does not bind.
\<close>

theorem profile_bounds:
  assumes "nPipes p = 3" and "Tr p < Ts p" and "Tair p < Tr p"
  shows "0 < alphaDbg p
         \<and> (\<forall>t \<in> set (TpipeArr p). t \<le> Ts p \<and> Tair p < t)
         \<and> (1 / 10 ^ 6 \<le> spec_alpha p \<longrightarrow> (\<forall>t \<in> set (TpipeArr p). Tr p \<le> t))"
proof -
  have d: "0 < Ts p - Tair p" using assms(2,3) by simp
  have up: "t \<le> Ts p \<and> Tair p < t" if tin: "t \<in> set (TpipeArr p)" for t
  proof -
    obtain c where c: "0 \<le> c" "c \<le> L_eff p"
      "t = Tair p + (Ts p - Tair p) * exp (- alphaDbg p * c)"
      using TpipeArr_three_set[OF assms(1) tin] by blast
    show ?thesis using decay_upper[OF alphaDbg_pos c(1) d, of p] by (simp add: c(3))
  qed
  have low: "Tr p \<le> t" if f: "1 / 10 ^ 6 \<le> spec_alpha p" and tin: "t \<in> set (TpipeArr p)" for t
  proof -
    obtain c where c: "0 \<le> c" "c \<le> L_eff p"
      "t = Tair p + (Ts p - Tair p) * exp (- alphaDbg p * c)"
      using TpipeArr_three_set[OF assms(1) tin] by blast
    have b: "alphaDbg p * L_eff p \<le> ln ((Ts p - Tair p) / (Tr p - Tair p))"
      using floor_free_bound[OF assms(3) f] by simp
    have e: "0 < Tr p - Tair p" "Tr p - Tair p \<le> Ts p - Tair p" using assms(2,3) by simp_all
    show ?thesis using decay_lower[OF alphaDbg_pos c(2) e b] by (simp add: c(3))
  qed
  show ?thesis using alphaDbg_pos up low by blast
qed

lemma L_eff_short_loop: "L_eff short_loop_params = 5"
  by (simp add: L_eff_def val_S_def short_loop_params_def params_defs)

lemma ln_11_ge_1: "1 \<le> ln (11::real)"
proof -
  have "exp (1::real) \<le> 3" by (rule exp_le)
  then have "exp (1::real) \<le> 11" by simp
  then show ?thesis by (simp add: ln_ge_iff)
qed

lemma spec_alpha_short_loop: "1 / 10 ^ 6 \<le> spec_alpha short_loop_params"
proof -
  have "spec_alpha short_loop_params = ln 11 / 5"
    by (simp add: spec_alpha_def L_eff_short_loop) (simp add: short_loop_params_def params_defs)
  then show ?thesis using ln_11_ge_1 by simp
qed

text \<open>The boundary scenario: the loop at its floor of 5 m, supply 55 and return 25.\<close>

theorem profile_bounds_witness:
  "nPipes short_loop_params = 3 \<and> Tr short_loop_params < Ts short_loop_params
   \<and> Tair short_loop_params < Tr short_loop_params \<and> L_eff short_loop_params = 5
   \<and> 0 < alphaDbg short_loop_params
   \<and> 25 \<le> TpipeArr short_loop_params ! 0 \<and> TpipeArr short_loop_params ! 0 \<le> 55
   \<and> 25 \<le> TpipeArr short_loop_params ! 1 \<and> TpipeArr short_loop_params ! 1 \<le> 55
   \<and> 25 \<le> TpipeArr short_loop_params ! 2 \<and> TpipeArr short_loop_params ! 2 \<le> 55"
proof -
  have n: "nPipes short_loop_params = 3" by (simp add: short_loop_params_def params_defs)
  have r: "Tr short_loop_params < Ts short_loop_params"
    by (simp add: short_loop_params_def params_defs)
  have a: "Tair short_loop_params < Tr short_loop_params"
    by (simp add: short_loop_params_def params_defs)
  have v: "Tr short_loop_params = 25" "Ts short_loop_params = 55"
    by (simp_all add: short_loop_params_def params_defs)
  have "length (TpipeArr short_loop_params) = 3"
    by (simp add: TpipeArr_three[OF n] Let_def)
  then have m: "TpipeArr short_loop_params ! 0 \<in> set (TpipeArr short_loop_params)"
    "TpipeArr short_loop_params ! 1 \<in> set (TpipeArr short_loop_params)"
    "TpipeArr short_loop_params ! 2 \<in> set (TpipeArr short_loop_params)"
    by simp_all
  have "0 < alphaDbg short_loop_params
     \<and> (\<forall>t \<in> set (TpipeArr short_loop_params). 25 \<le> t \<and> t \<le> 55)"
    using profile_bounds[OF n r a] spec_alpha_short_loop by (simp add: v)
  then show ?thesis using m n r a L_eff_short_loop by blast
qed

lemma L_eff_near_equal: "L_eff near_equal_params = 60"
  by (simp add: L_eff_def val_S_def near_equal_params_def params_defs)

lemma alphaDbg_near_equal: "alphaDbg near_equal_params = 1 / 10 ^ 6"
proof -
  have "ln (1 + 1 / 18000000) \<le> (1 / 18000000 :: real)"
    by (rule ln_add_one_self_le_self) simp
  moreover have "(1 + 1 / 18000000 :: real) = 18000001 / 18000000" by simp
  ultimately have l: "ln (18000001 / 18000000) \<le> (1 / 18000000 :: real)" by simp
  have "spec_alpha near_equal_params = ln (18000001 / 18000000) / 60"
    by (simp add: spec_alpha_def L_eff_near_equal) (simp add: near_equal_params_def params_defs)
  then have "spec_alpha near_equal_params \<le> 1 / 10 ^ 6" using l by simp
  then show ?thesis by (simp add: alphaDbg_spec max_def)
qed

text \<open>
  C6 as stated fails when the supply is barely above the return: the floor under the
  coefficient makes the centre pipe of the spiral, a whole loop length from the supply,
  colder than the return temperature.
\<close>

theorem profile_bounds_counterexample:
  "nPipes near_equal_params = 3 \<and> Tr near_equal_params < Ts near_equal_params
   \<and> Tair near_equal_params < Tr near_equal_params
   \<and> TpipeArr near_equal_params ! 1 < Tr near_equal_params"
proof -
  have n: "nPipes near_equal_params = 3" by (simp add: near_equal_params_def params_defs)
  have l: "layout near_equal_params = ''spiral''"
    by (simp add: near_equal_params_def params_defs)
  have x: "xPos near_equal_params = 0"
    by (simp add: xPos_def) (simp add: near_equal_params_def params_defs)
  have t: "Tair near_equal_params = 22" "Ts near_equal_params = 40.000001"
    "Tr near_equal_params = 40"
    by (simp_all add: near_equal_params_def params_defs)
  have m: "TpipeArr near_equal_params ! 1 = 22 + (40.000001 - 22) * exp (- (1 / 10 ^ 6) * 60)"
    by (simp add: TpipeArr_three[OF n] Let_def l x t L_eff_near_equal alphaDbg_near_equal)
  have "1 + (6 / 10 ^ 5 :: real) \<le> exp (6 / 10 ^ 5)" by (rule exp_ge_add_one_self)
  then have e: "(100006 / 100000 :: real) \<le> exp (6 / 10 ^ 5)" by simp
  have "exp (- (1 / 10 ^ 6) * 60) = 1 / exp (6 / 10 ^ 5 :: real)"
    by (simp add: exp_minus field_simps)
  also have "\<dots> \<le> 1 / (100006 / 100000)"
    using e by (intro divide_left_mono) auto
  finally have u: "exp (- (1 / 10 ^ 6) * 60) \<le> (100000 / 100006 :: real)" by simp
  have "(40.000001 - 22) * exp (- (1 / 10 ^ 6) * 60) \<le> (40.000001 - 22) * (100000 / 100006 :: real)"
    using u by (intro mult_left_mono) auto
  also have "\<dots> < 18" by simp
  finally have "TpipeArr near_equal_params ! 1 < 40" unfolding m by simp
  then show ?thesis using n by (simp add: t)
qed



section \<open>Grid indices and loops\<close>

lemma NX_ge3: "3 \<le> NX"
  by (simp add: NX_def)

lemma idx_inj:
  assumes "i < NX" and "i' < NX" and "idx i j = idx i' j'"
  shows "i = i' \<and> j = j'"
proof -
  have "(j * NX + i) mod NX = (j' * NX + i') mod NX" using assms(3) by (simp add: idx_def)
  then have i: "i = i'" using assms(1,2) by simp
  have "(j * NX + i) div NX = (j' * NX + i') div NX" using assms(3) by (simp add: idx_def)
  then have "j = j'" using assms(1,2) by simp
  with i show ?thesis by simp
qed

lemma idx_less:
  assumes "i < NX" and "j < n"
  shows "idx i j < NX * n"
proof -
  have "j * NX + i < j * NX + NX" using assms(1) by simp
  also have "\<dots> = NX * Suc j" by simp
  also have "\<dots> \<le> NX * n" using assms(2) by (intro mult_le_mono2) simp
  finally show ?thesis by (simp add: idx_def)
qed

text \<open>A loop leaves unchanged what none of its steps changes.\<close>

lemma fold_frame:
  assumes "\<And>x s. x \<in> set xs \<Longrightarrow> g (f x s) = g s"
  shows "g (fold f xs s) = g s"
  using assms by (induction xs arbitrary: s) simp_all

lemma fold_sum_upt:
  fixes f :: "nat \<Rightarrow> real"
  shows "fold (\<lambda>i s. s + f i) [0..<n] a = a + (\<Sum>i<n. f i)"
  by (induction n) simp_all

section \<open>Pipe mask\<close>

lemma maskCell_other:
  assumes "n \<noteq> idx i j"
  shows "fst (maskCell p j i st) ! n = fst st ! n"
  using assms by (simp add: maskCell_def Let_def split: option.splits)

lemma maskRow_other:
  assumes "\<And>i. 1 \<le> i \<Longrightarrow> i < NX - 1 \<Longrightarrow> n \<noteq> idx i j"
  shows "fst (maskRow p j st) ! n = fst st ! n"
  unfolding maskRow_def
  by (rule fold_frame[where g = "\<lambda>st. fst st ! n"]) (simp add: maskCell_other assms)

lemma maskLoops_other:
  assumes "\<And>i j. 1 \<le> i \<Longrightarrow> i < NX - 1 \<Longrightarrow> 1 \<le> j \<Longrightarrow> j < NY p - 1 \<Longrightarrow> n \<noteq> idx i j"
    and "n < NX * NY p"
  shows "pipeMask p ! n = 0"
proof -
  have "fst (maskLoops p) ! n = fst (replicate (NX * NY p) (0::nat),
      fill (- 1) 0 (NX * NY p) (replicate (NX * NY p) (0::int))) ! n"
    unfolding maskLoops_def
    by (rule fold_frame[where g = "\<lambda>st. fst st ! n"]) (simp add: maskRow_other assms(1))
  then show ?thesis using assms(2) by (simp add: pipeMask_def)
qed

lemma boundary_mask:
  assumes "i < NX" and "j < NY p" and "i = 0 \<or> i = NX - 1 \<or> j = 0 \<or> j = NY p - 1"
  shows "pipeMask p ! idx i j = 0"
proof (rule maskLoops_other)
  fix i' j'
  assume a: "1 \<le> i'" "i' < NX - 1" "1 \<le> j'" "j' < NY p - 1"
  show "idx i j \<noteq> idx i' j'"
  proof
    assume "idx i j = idx i' j'"
    then have "i = i' \<and> j = j'" using assms(1) a(2) by (intro idx_inj) simp_all
    then show False using a assms(3) by auto
  qed
next
  show "idx i j < NX * NY p" using assms(1,2) by (rule idx_less)
qed

text \<open>
  C9: every node of the top row, the bottom row, the left column and the right column has
  the pipe mask 0, since the mask loops write at interior indices only. So the update of a
  top-row node is always the convective one, and the update of a bottom-row node always
  writes the temperature below the insulation: their pipe branches are never taken.
\<close>

theorem boundary_pipeMask_zero:
  assumes "i < NX" and "j < NY p" and "i = 0 \<or> i = NX - 1 \<or> j = 0 \<or> j = NY p - 1"
  shows "pipeMask p ! idx i j = 0
     \<and> (j = 0 \<longrightarrow> topCell p i T =
           T[idx i 0 := ((kRow p ! 0 / dy p) * T ! idx i 1 + hEff p * Tair p)
                         / ((kRow p ! 0 / dy p) + hEff p)])
     \<and> (j = NY p - 1 \<longrightarrow> bottomCell p i T = T[idx i (NY p - 1) := belowT p])"
proof -
  have m: "pipeMask p ! idx i j = 0" using assms by (rule boundary_mask)
  have t: "topCell p i T =
           T[idx i 0 := ((kRow p ! 0 / dy p) * T ! idx i 1 + hEff p * Tair p)
                         / ((kRow p ! 0 / dy p) + hEff p)]" if "j = 0"
    using m that by (simp add: topCell_def Let_def)
  have b: "bottomCell p i T = T[idx i (NY p - 1) := belowT p]" if "j = NY p - 1"
    using m that by (simp add: bottomCell_def Let_def)
  show ?thesis using m t b by blast
qed

text \<open>Corner and edge nodes of the default grid of 144 by 99 nodes.\<close>

theorem boundary_pipeMask_zero_witness:
  "pipeMask defaults ! idx 0 0 = 0 \<and> pipeMask defaults ! idx 143 98 = 0
   \<and> pipeMask defaults ! idx 70 0 = 0
   \<and> topCell defaults 70 (initT defaults) =
       (initT defaults)[idx 70 0 :=
          ((kRow defaults ! 0 / dy defaults) * initT defaults ! idx 70 1 + hEff defaults * 22)
          / ((kRow defaults ! 0 / dy defaults) + hEff defaults)]
   \<and> bottomCell defaults 143 (initT defaults) = (initT defaults)[idx 143 98 := 18]"
proof -
  have x: "0 < NX" "143 < NX" "70 < NX" "143 = NX - 1" by (simp_all add: NX_def)
  have y: "0 < NY defaults" "98 < NY defaults" "98 = NY defaults - 1"
    by (simp_all add: NY_defaults)
  have b: "belowT defaults = 18" "Tair defaults = 22" by (simp_all add: params_defs)
  have c1: "(0::nat) = 0 \<or> 0 = NX - 1 \<or> (0::nat) = 0 \<or> 0 = NY defaults - 1" by simp
  have c2: "(143::nat) = 0 \<or> 143 = NX - 1 \<or> (98::nat) = 0 \<or> 98 = NY defaults - 1"
    using x(4) by simp
  have c3: "(70::nat) = 0 \<or> 70 = NX - 1 \<or> (0::nat) = 0 \<or> 0 = NY defaults - 1" by simp
  show ?thesis
    using boundary_pipeMask_zero[OF x(1) y(1) c1, of "initT defaults"]
      boundary_pipeMask_zero[OF x(2) y(2) c2, of "initT defaults"]
      boundary_pipeMask_zero[OF x(3) y(1) c3, of "initT defaults"] y(3) b
    by simp
qed

section \<open>Top-row sweep\<close>

lemma length_topCell: "length (topCell p i T) = length T"
  by (simp add: topCell_def Let_def)

lemma length_fold_topCell: "length (fold (topCell p) xs T) = length T"
  by (rule fold_frame[where g = length]) (simp add: length_topCell)

lemma topCell_other:
  assumes "n \<noteq> idx i 0"
  shows "topCell p i T ! n = T ! n"
  using assms by (simp add: topCell_def Let_def)

lemma fold_topCell_other:
  assumes "\<And>i. i \<in> set xs \<Longrightarrow> n \<noteq> idx i 0"
  shows "fold (topCell p) xs T ! n = T ! n"
  by (rule fold_frame[where g = "\<lambda>T. T ! n"]) (simp add: topCell_other assms)

lemma idx_row1_not_row0:
  assumes "i < NX" and "i' < NX"
  shows "idx i 1 \<noteq> idx i' 0"
  using idx_inj[OF assms, of 1 0] by auto

lemma fold_topCell_row0:
  assumes "i < m" and "m \<le> NX" and "length T = NX * NY p" and "pipeMask p ! idx i 0 = 0"
  shows "fold (topCell p) [0..<m] T ! idx i 0 = ((kRow p ! 0 / dy p) * (T ! idx i 1) + hEff p * Tair p) / ((kRow p ! 0 / dy p) + hEff p)"
  using assms(1,2)
proof (induction m)
  case 0
  then show ?case by simp
next
  case (Suc m)
  define T' where "T' = fold (topCell p) [0..<m] T"
  have len: "length T' = NX * NY p" by (simp add: T'_def length_fold_topCell assms(3))
  have step: "fold (topCell p) [0..<Suc m] T = topCell p m T'" by (simp add: T'_def)
  show ?case
  proof (cases "i = m")
    case True
    have iNX: "i < NX" using Suc.prems by simp
    have "idx i 0 < length T'" using idx_less[OF iNX, of 0 "NY p"] NY_ge3[of p] len by simp
    moreover have "T' ! idx i 1 = T ! idx i 1"
      unfolding T'_def
    proof (rule fold_topCell_other)
      fix i' assume "i' \<in> set [0..<m]"
      then have "i' < NX" using Suc.prems by simp
      then show "idx i 1 \<noteq> idx i' 0" using iNX by (intro idx_row1_not_row0)
    qed
    ultimately have "topCell p m T' ! idx i 0 = ((kRow p ! 0 / dy p) * (T ! idx i 1) + hEff p * Tair p) / ((kRow p ! 0 / dy p) + hEff p)"
      using True assms(4) by (simp add: topCell_def Let_def)
    then show ?thesis by (simp only: step)
  next
    case False
    then have im: "i < m" using Suc.prems by simp
    have "idx i 0 \<noteq> idx m 0"
      using idx_inj[of i m 0 0] Suc.prems False by auto
    then have "topCell p m T' ! idx i 0 = T' ! idx i 0" by (rule topCell_other)
    moreover have "T' ! idx i 0 = ((kRow p ! 0 / dy p) * (T ! idx i 1) + hEff p * Tair p) / ((kRow p ! 0 / dy p) + hEff p)"
      unfolding T'_def using Suc.prems by (intro Suc.IH[OF im]) simp
    ultimately show ?thesis by (simp only: step)
  qed
qed

lemma fold_topCell_row1:
  assumes "i < NX"
  shows "fold (topCell p) [0..<NX] T ! idx i 1 = T ! idx i 1"
proof (rule fold_topCell_other)
  fix i' assume "i' \<in> set [0..<NX]"
  then have "i' < NX" by simp
  then show "idx i 1 \<noteq> idx i' 0" using assms by (intro idx_row1_not_row0)
qed

lemma idx_neq_col:
  assumes "i < NX" and "i' < NX" and "i \<noteq> i'"
  shows "idx i j \<noteq> idx i' j'"
  using idx_inj[OF assms(1,2), of j j'] assms(3) by auto

lemma idx_neq_row:
  assumes "i < NX" and "i' < NX" and "j \<noteq> j'"
  shows "idx i j \<noteq> idx i' j'"
  using idx_inj[OF assms(1,2), of j j'] assms(3) by auto

text \<open>
  C2: after a top-row sweep of a field of the grid's size, every top-row node off the
  corners that is not a pipe cell is the flux-weighted average of the node below it and
  the air, with the conductivity of row 0 and the effective coefficient
  \<open>hTop + 6 * max 0 airVel powr 0.6\<close>; each top corner equals its neighbour in the top row.
\<close>

theorem top_row_sweep:
  assumes "length T = NX * NY p" and "T' = rowSweep p 0 T"
  shows "(0 < i \<and> i < NX - 1 \<and> pipeMask p ! idx i 0 = 0 \<longrightarrow>
            T' ! idx i 0 =
              ((kRow p ! 0 / dy p) * T' ! idx i 1
                 + (hTop p + 6 * (max 0 (airVel p)) powr 0.6) * Tair p)
              / ((kRow p ! 0 / dy p) + (hTop p + 6 * (max 0 (airVel p)) powr 0.6)))
         \<and> T' ! idx 0 0 = T' ! idx 1 0
         \<and> T' ! idx (NX - 1) 0 = T' ! idx (NX - 2) 0"
proof -
  define T1 where "T1 = fold (topCell p) [0..<NX] T"
  define T2 where "T2 = T1[idx 0 0 := T1 ! idx 1 0]"
  have T': "T' = T2[idx (NX - 1) 0 := T2 ! idx (NX - 2) 0]"
    by (simp add: assms(2) rowSweep_def topRow_def Let_def T1_def T2_def)
  have len1: "length T1 = NX * NY p" by (simp add: T1_def length_fold_topCell assms(1))
  have ny: "0 < NY p" using NY_ge3[of p] by simp
  have nx: "3 \<le> NX" by (rule NX_ge3)
  have in0: "idx i' 0 < length T1" if "i' < NX" for i'
    using idx_less[OF that ny] len1 by simp
  have a: "T' ! idx i 0 =
              ((kRow p ! 0 / dy p) * T' ! idx i 1
                 + (hTop p + 6 * (max 0 (airVel p)) powr 0.6) * Tair p)
              / ((kRow p ! 0 / dy p) + (hTop p + 6 * (max 0 (airVel p)) powr 0.6))"
    if h: "0 < i \<and> i < NX - 1 \<and> pipeMask p ! idx i 0 = 0"
  proof -
    have i: "i < NX" "i \<noteq> 0" "i \<noteq> NX - 1" using h by linarith+
    have e: "0 < NX" "NX - 1 < NX" using nx by linarith+
    have n0: "idx i 0 \<noteq> idx 0 0" "idx i 0 \<noteq> idx (NX - 1) 0"
      using i e by (simp_all add: idx_neq_col)
    have n1: "idx i 1 \<noteq> idx 0 0" "idx i 1 \<noteq> idx (NX - 1) 0"
      using i e by (simp_all add: idx_neq_row)
    have r0: "T' ! idx i 0 = T1 ! idx i 0" using n0 by (simp add: T' T2_def)
    have r1: "T' ! idx i 1 = T1 ! idx i 1" using n1 by (simp add: T' T2_def)
    have "T1 ! idx i 0 = ((kRow p ! 0 / dy p) * (T ! idx i 1) + hEff p * Tair p) / ((kRow p ! 0 / dy p) + hEff p)"
      unfolding T1_def using i(1) h assms(1) by (intro fold_topCell_row0) simp_all
    then have v0: "T' ! idx i 0 = ((kRow p ! 0 / dy p) * (T ! idx i 1) + hEff p * Tair p) / ((kRow p ! 0 / dy p) + hEff p)" by (simp only: r0)
    have "T1 ! idx i 1 = T ! idx i 1"
      unfolding T1_def using i(1) by (rule fold_topCell_row1)
    then have v1: "T' ! idx i 1 = T ! idx i 1" by (simp only: r1)
    show ?thesis unfolding v0 v1 by (simp add: hEff_def)
  qed
  have e: "0 < NX" "1 < NX" "NX - 1 < NX" "NX - 2 < NX" "(0::nat) \<noteq> NX - 1" "1 \<noteq> NX - 1"
    "NX - 2 \<noteq> NX - 1"
    using nx by linarith+
  have b: "T' ! idx 0 0 = T' ! idx 1 0"
  proof -
    have "idx 0 0 \<noteq> idx (NX - 1) 0" "idx 1 0 \<noteq> idx (NX - 1) 0" "idx 1 0 \<noteq> idx 0 0"
      using e by (simp_all add: idx_neq_col)
    moreover have "idx 0 0 < length T1" using e(1) by (rule in0)
    ultimately show ?thesis by (simp add: T' T2_def)
  qed
  have c: "T' ! idx (NX - 1) 0 = T' ! idx (NX - 2) 0"
  proof -
    have "idx (NX - 2) 0 \<noteq> idx (NX - 1) 0" using e by (simp add: idx_neq_col)
    moreover have "idx (NX - 1) 0 < length T2" using in0[OF e(3)] by (simp add: T2_def)
    ultimately show ?thesis by (simp add: T')
  qed
  show ?thesis using a b c by blast
qed

lemma length_fill: "length (fill v a b xs) = length xs"
  unfolding fill_def by (rule fold_frame[where g = length]) simp

lemma length_initT: "length (initT p) = NX * NY p"
proof -
  have "length (fold (initRow p) [0..<NY p] (replicate (NX * NY p) 0))
        = length (replicate (NX * NY p) (0::real))"
    by (rule fold_frame[where g = length]) (simp add: initRow_def Let_def length_fill)
  then show ?thesis by (simp add: initT_def)
qed

lemma length_bottomCell: "length (bottomCell p i T) = length T"
  by (simp add: bottomCell_def Let_def)

lemma length_interiorCell: "length (interiorCell p j i T) = length T"
  by (simp add: interiorCell_def Let_def)

lemma length_rowSweep: "length (rowSweep p j T) = length T"
proof -
  have t: "length (topRow p T) = length T"
    by (simp add: topRow_def Let_def length_fold_topCell)
  have b: "length (bottomRow p T) = length T"
    unfolding bottomRow_def by (rule fold_frame[where g = length]) (simp add: length_bottomCell)
  have i: "length (fold (interiorCell p j) [0..<NX] T) = length T"
    by (rule fold_frame[where g = length]) (simp add: length_interiorCell)
  show ?thesis using t b i by (simp add: rowSweep_def)
qed

lemma length_sweep: "length (sweep p T) = length T"
  unfolding sweep_def by (rule fold_frame[where g = length]) (simp add: length_rowSweep)

text \<open>Every field the solver passes to a sweep has the size of the grid.\<close>

lemma length_solver_states: "length ((sweep p ^^ n) (initT p)) = NX * NY p"
  by (induction n) (simp_all add: length_initT length_sweep)

text \<open>The first top-row sweep of the default parameter set, at column 70.\<close>

theorem top_row_sweep_witness:
  "length (initT defaults) = NX * NY defaults \<and> pipeMask defaults ! idx 70 0 = 0
   \<and> rowSweep defaults 0 (initT defaults) ! idx 70 0 =
       ((kRow defaults ! 0 / dy defaults) * rowSweep defaults 0 (initT defaults) ! idx 70 1
          + (10 + 6 * (max 0 0) powr 0.6) * 22)
       / ((kRow defaults ! 0 / dy defaults) + (10 + 6 * (max 0 0) powr 0.6))
   \<and> rowSweep defaults 0 (initT defaults) ! idx 0 0
       = rowSweep defaults 0 (initT defaults) ! idx 1 0
   \<and> rowSweep defaults 0 (initT defaults) ! idx (NX - 1) 0
       = rowSweep defaults 0 (initT defaults) ! idx (NX - 2) 0"
proof -
  have l: "length (initT defaults) = NX * NY defaults" by (rule length_initT)
  have x: "70 < NX" "0 < (70::nat) \<and> 70 < NX - 1" by (simp_all add: NX_def)
  have y: "0 < NY defaults" by (simp add: NY_defaults)
  have m: "pipeMask defaults ! idx 70 0 = 0" using x(1) y by (rule boundary_mask) simp
  have v: "hTop defaults = 10" "airVel defaults = 0" "Tair defaults = 22"
    by (simp_all add: params_defs)
  show ?thesis
    using top_row_sweep[OF l refl, of 70] l m x(2) unfolding v by simp
qed

section \<open>Flux balance\<close>

lemma qUpSum_sum:
  "qUpSum p T = (\<Sum>i<NX. hEff p * (T ! idx i 0 - Tair p))"
proof -
  have "fold (\<lambda>i s. s + hEff p * (surfaceT T ! i - Tair p)) [0..<NX] 0
        = 0 + (\<Sum>i<NX. hEff p * (surfaceT T ! i - Tair p))"
    by (rule fold_sum_upt)
  also have "\<dots> = (\<Sum>i<NX. hEff p * (T ! idx i 0 - Tair p))"
    by (simp add: surfaceT_def)
  finally show ?thesis by (simp add: qUpSum_def)
qed

lemma qDownSum_sum:
  "qDownSum p T =
     (\<Sum>i<NX. - kRow p ! (NY p - 1) * (T ! idx i (NY p - 1) - T ! idx i (NY p - 2)) / dy p)"
proof -
  have "qDownSum p T =
     fold (\<lambda>i s. s + - kRow p ! (NY p - 1) * (T ! idx i (NY p - 1) - T ! idx i (NY p - 2)) / dy p)
       [0..<NX] 0"
    by (simp only: qDownSum_def Let_def)
  also have "\<dots> = 0 + (\<Sum>i<NX. - kRow p ! (NY p - 1)
       * (T ! idx i (NY p - 1) - T ! idx i (NY p - 2)) / dy p)"
    by (rule fold_sum_upt)
  finally show ?thesis by simp
qed

text \<open>
  C7: on the solved field the mean downward flux is the mean over the columns of the
  one-sided difference \<open>- kB * (T(i, NY-1) - T(i, NY-2)) / dy\<close> with the conductivity of the
  bottom row, and the metrics report its non-negative part; the total flux is the mean
  upward flux plus that part, and the upward share is the mean upward flux over the total
  plus \<open>10\<^sup>-\<^sup>9\<close>.
\<close>

theorem flux_balance:
  "qDownMean p (solveField p) =
     (\<Sum>i<NX. - kRow p ! (NY p - 1)
          * (solveField p ! idx i (NY p - 1) - solveField p ! idx i (NY p - 2)) / dy p)
     / real NX
   \<and> qUpMean p (solveField p) =
     (\<Sum>i<NX. hEff p * (solveField p ! idx i 0 - Tair p)) / real NX
   \<and> m_qDownMean (metrics p) = toFixed 1 (max 0 (qDownMean p (solveField p)))
   \<and> qTotalPerArea p (solveField p)
       = qUpMean p (solveField p) + max 0 (qDownMean p (solveField p))
   \<and> upShare p (solveField p)
       = qUpMean p (solveField p) / (qTotalPerArea p (solveField p) + 1 / 10 ^ 9)"
  by (simp add: qDownMean_def qDownSum_sum qUpMean_def qUpSum_sum metrics_def Let_def
      qDownAbs_def qTotalPerArea_def upShare_def)

end
